theory Spec2Isabelle
  imports Main "HOL-Library.Word"
begin

unbundle bit_operations_syntax

section \<open>The double-array trie of cedar.go\<close>

text \<open>
  The Go type \<^verbatim>\<open>int\<close> is modelled by \<^typ>\<open>int\<close>: slot and block indices are indices
  of slices that exist, so they stay far below \<open>2 ^ 63\<close>. Two places of the source can
  leave that range: \<^verbatim>\<open>-(n.Value + 1)\<close> at \<^verbatim>\<open>n.Value = ValueLimit\<close> wraps to \<open>- (2 ^ 63)\<close>,
  which is the value the unbounded arithmetic gives as well; and \<^verbatim>\<open>da.Capacity *= 2\<close> in
  \<^verbatim>\<open>addBlock\<close>, where the wrap-around is written out (\<open>wrap64\<close>). A byte is an
  \<^typ>\<open>8 word\<close>, and \<^verbatim>\<open>int(label)\<close> is \<^const>\<open>uint\<close>.

  A call either does not return (\<open>None\<close>), panics (\<open>Some (Inl e)\<close>) or returns a value
  (\<open>Some (Inr x)\<close>); a method of \<^verbatim>\<open>*Cedar\<close> takes the state and returns the new state
  with its result.
\<close>

datatype error = IndexOutOfRange | MakeSliceLen | InternalError

type_synonym 'a result = "(error + 'a) option"

definition ok :: "'a \<Rightarrow> 'a result" where
  "ok x = Some (Inr x)"

definition panic :: "error \<Rightarrow> 'a result" where
  "panic e = Some (Inl e)"

definition rbind :: "'a result \<Rightarrow> ('a \<Rightarrow> 'b result) \<Rightarrow> 'b result" where
  "rbind m f = Option.bind m (\<lambda>r. case r of Inl e \<Rightarrow> Some (Inl e) | Inr x \<Rightarrow> f x)"

subsection \<open>Slices\<close>

text \<open>
  A slice is its length and its elements by index; reading or writing outside
  \<open>0 \<le> i < len\<close> panics in Go, so every access below is guarded by \<open>inb\<close>.
\<close>

record 'a slice =
  len :: int
  at :: "int \<Rightarrow> 'a"

definition inb :: "'a slice \<Rightarrow> int \<Rightarrow> bool" where
  "inb s i \<longleftrightarrow> 0 \<le> i \<and> i < len s"

definition upd :: "'a slice \<Rightarrow> int \<Rightarrow> 'a \<Rightarrow> 'a slice" where
  "upd s i v = s\<lparr>at := (at s)(i := v)\<rparr>"

definition make_slice :: "'a \<Rightarrow> int \<Rightarrow> 'a slice" where
  "make_slice z n = \<lparr>len = n, at = (\<lambda>_. z)\<rparr>"

definition copy_slice :: "'a slice \<Rightarrow> 'a slice \<Rightarrow> 'a slice" where
  "copy_slice dst src =
     dst\<lparr>at := (\<lambda>i. if 0 \<le> i \<and> i < min (len dst) (len src) then at src i else at dst i)\<rparr>"

subsection \<open>Data model\<close>

definition ValueLimit :: int where
  "ValueLimit = 2 ^ 63 - 1"

record node =
  Value :: int
  Check :: int

definition base :: "node \<Rightarrow> int" where
  "base n = - (Value n + 1)"

record ninfo =
  Sibling :: "8 word"
  Child :: "8 word"
  End :: bool

record block =
  Prev :: int
  Next :: int
  Num :: int
  Reject :: int
  Trial :: int
  Ehead :: int

definition zero_node :: node where
  "zero_node = \<lparr>Value = 0, Check = 0\<rparr>"

definition zero_ninfo :: ninfo where
  "zero_ninfo = \<lparr>Sibling = 0, Child = 0, End = False\<rparr>"

definition zero_block :: block where
  "zero_block = \<lparr>Prev = 0, Next = 0, Num = 0, Reject = 0, Trial = 0, Ehead = 0\<rparr>"

definition init :: "block \<Rightarrow> block" where
  "init b = b\<lparr>Num := 256, Reject := 257\<rparr>"

text \<open>
  The fields \<^verbatim>\<open>vals\<close> and \<^verbatim>\<open>vkey\<close> of \<^verbatim>\<open>Cedar\<close> are only used by \<^verbatim>\<open>vKey\<close> and are
  left out. The table \<^verbatim>\<open>Cedar.Reject\<close> is named \<open>Rejects\<close>, since \<open>Reject\<close> is the field
  of a block.
\<close>

record cedar =
  Array :: "node slice"
  Ninfos :: "ninfo slice"
  Blocks :: "block slice"
  Rejects :: "int slice"
  BheadF :: int
  BheadC :: int
  BheadO :: int
  Capacity :: int
  Size :: int
  Ordered :: bool
  MaxTrial :: int

text \<open>The three ring heads are passed by pointer in the source; here by name.\<close>

datatype head = HF | HC | HO

fun get_head :: "cedar \<Rightarrow> head \<Rightarrow> int" where
  "get_head da HF = BheadF da"
| "get_head da HC = BheadC da"
| "get_head da HO = BheadO da"

fun set_head :: "cedar \<Rightarrow> head \<Rightarrow> int \<Rightarrow> cedar" where
  "set_head da HF v = da\<lparr>BheadF := v\<rparr>"
| "set_head da HC v = da\<lparr>BheadC := v\<rparr>"
| "set_head da HO v = da\<lparr>BheadO := v\<rparr>"

definition set_node :: "cedar \<Rightarrow> int \<Rightarrow> (node \<Rightarrow> node) \<Rightarrow> cedar" where
  "set_node da i f = da\<lparr>Array := upd (Array da) i (f (at (Array da) i))\<rparr>"

definition set_ninfo :: "cedar \<Rightarrow> int \<Rightarrow> (ninfo \<Rightarrow> ninfo) \<Rightarrow> cedar" where
  "set_ninfo da i f = da\<lparr>Ninfos := upd (Ninfos da) i (f (at (Ninfos da) i))\<rparr>"

definition set_block :: "cedar \<Rightarrow> int \<Rightarrow> (block \<Rightarrow> block) \<Rightarrow> cedar" where
  "set_block da i f = da\<lparr>Blocks := upd (Blocks da) i (f (at (Blocks da) i))\<rparr>"

subsection \<open>New\<close>

definition New :: cedar where
  "New =
    \<lparr>Array = \<lparr>len = 256, at = (\<lambda>i.
        if i = 0 then \<lparr>Value = - 2, Check = 0\<rparr>
        else if 1 \<le> i \<and> i < 256 then
          \<lparr>Value = (if i = 1 then - 255 else - (i - 1)),
           Check = (if i = 255 then - 1 else - (i + 1))\<rparr>
        else zero_node)\<rparr>,
     Ninfos = make_slice zero_ninfo 256,
     Blocks = upd (make_slice zero_block 1) 0 (init (zero_block\<lparr>Ehead := 1\<rparr>)),
     Rejects = \<lparr>len = 257, at = (\<lambda>i. if 0 \<le> i \<and> i \<le> 256 then i + 1 else 0)\<rparr>,
     BheadF = 0, BheadC = 0, BheadO = 0,
     Capacity = 256, Size = 256, Ordered = True, MaxTrial = 1\<rparr>"

subsection \<open>Block rings\<close>

definition popBlock :: "cedar \<Rightarrow> int \<Rightarrow> head \<Rightarrow> bool \<Rightarrow> cedar result" where
  "popBlock da bi headIn is_last =
    (if is_last then ok (set_head da headIn 0)
     else if \<not> inb (Blocks da) bi then panic IndexOutOfRange
     else if \<not> inb (Blocks da) (Prev (at (Blocks da) bi)) then panic IndexOutOfRange
     else
       let da1 = set_block da (Prev (at (Blocks da) bi)) (\<lambda>p. p\<lparr>Next := Next (at (Blocks da) bi)\<rparr>)
       in if \<not> inb (Blocks da1) (Next (at (Blocks da1) bi)) then panic IndexOutOfRange
       else
         let da2 = set_block da1 (Next (at (Blocks da1) bi))
                     (\<lambda>p. p\<lparr>Prev := Prev (at (Blocks da1) bi)\<rparr>)
         in ok (if bi = get_head da2 headIn
                then set_head da2 headIn (Next (at (Blocks da2) bi)) else da2))"

definition pushBlock :: "cedar \<Rightarrow> int \<Rightarrow> head \<Rightarrow> bool \<Rightarrow> cedar result" where
  "pushBlock da bi headOut is_empty =
    (if \<not> inb (Blocks da) bi then panic IndexOutOfRange
     else if is_empty then
       ok (set_block (set_block (set_head da headOut bi) bi (\<lambda>b. b\<lparr>Prev := bi\<rparr>)) bi
             (\<lambda>b. b\<lparr>Next := bi\<rparr>))
     else if \<not> inb (Blocks da) (get_head da headOut) then panic IndexOutOfRange
     else
       let h = get_head da headOut;
           da1 = set_block da bi (\<lambda>b. b\<lparr>Prev := Prev (at (Blocks da) h)\<rparr>);
           da2 = set_block da1 bi (\<lambda>b. b\<lparr>Next := h\<rparr>);
           t = Prev (at (Blocks da2) h)
       in if \<not> inb (Blocks da2) t then panic IndexOutOfRange
          else ok (set_block (set_block (set_head da2 headOut bi) h (\<lambda>b. b\<lparr>Prev := bi\<rparr>)) t
                     (\<lambda>b. b\<lparr>Next := bi\<rparr>)))"

definition transferBlock :: "cedar \<Rightarrow> int \<Rightarrow> head \<Rightarrow> head \<Rightarrow> cedar result" where
  "transferBlock da bi headIn headOut =
    (if \<not> inb (Blocks da) bi then panic IndexOutOfRange
     else rbind (popBlock da bi headIn (bi = Next (at (Blocks da) bi)))
            (\<lambda>da1. pushBlock da1 bi headOut
                      (get_head da1 headOut = 0 \<and> Num (at (Blocks da1) bi) \<noteq> 0)))"

subsection \<open>addBlock\<close>

function addBlock_loop :: "node slice \<Rightarrow> int \<Rightarrow> int \<Rightarrow> error + node slice" where
  "addBlock_loop a i hi =
    (if i < hi then
       (if inb a i
        then addBlock_loop (upd a i \<lparr>Value = - (i - 1), Check = - (i + 1)\<rparr>) (i + 1) hi
        else Inl IndexOutOfRange)
     else Inr a)"
  by pat_completeness auto
termination
  by (relation "measure (\<lambda>(a, i, hi). nat (hi - i))") auto

text \<open>
  \<^verbatim>\<open>da.Capacity *= 2\<close> is a 64-bit multiplication: the product wraps around, and
  \<^verbatim>\<open>make\<close> panics on a negative length. (That an allocation of the new length may fail
  for want of memory is not modelled.)
\<close>

definition wrap64 :: "int \<Rightarrow> int" where
  "wrap64 x = (x + 2 ^ 63) mod 2 ^ 64 - 2 ^ 63"

definition grow :: "cedar \<Rightarrow> cedar result" where
  "grow da =
    (let c = wrap64 (Capacity da * 2) in
     if c < 0 then panic MakeSliceLen
     else ok (da\<lparr>Capacity := c,
                 Array := copy_slice (make_slice zero_node c) (Array da),
                 Ninfos := copy_slice (make_slice zero_ninfo c) (Ninfos da),
                 Blocks := copy_slice (make_slice zero_block (drop_bit 8 c)) (Blocks da)\<rparr>))"

definition addBlock :: "cedar \<Rightarrow> (int \<times> cedar) result" where
  "addBlock da0 =
    rbind (if Size da0 = Capacity da0 then grow da0 else ok da0) (\<lambda>da.
      let s = Size da; bi = drop_bit 8 s in
      if \<not> inb (Blocks da) bi then panic IndexOutOfRange
      else
        let da1 = set_block (set_block da bi init) bi (\<lambda>b. b\<lparr>Ehead := s\<rparr>) in
        if \<not> inb (Array da1) s then panic IndexOutOfRange
        else
          case addBlock_loop (upd (Array da1) s \<lparr>Value = - (s + 255), Check = - (s + 1)\<rparr>)
                 (s + 1) (s + 255) of
            Inl e \<Rightarrow> panic e
          | Inr a \<Rightarrow>
              if \<not> inb a (s + 255) then panic IndexOutOfRange
              else
                let da2 = da1\<lparr>Array := upd a (s + 255) \<lparr>Value = - (s + 254), Check = - s\<rparr>\<rparr> in
                rbind (pushBlock da2 bi HO (BheadO da2 = 0)) (\<lambda>da3.
                  let da4 = da3\<lparr>Size := Size da3 + 256\<rparr> in
                  ok (drop_bit 8 (Size da4) - 1, da4)))"

subsection \<open>findPlace, popEnode, pushEnode\<close>

definition findPlace :: "cedar \<Rightarrow> (int \<times> cedar) result" where
  "findPlace da =
    (if BheadC da \<noteq> 0 then
       (if inb (Blocks da) (BheadC da) then ok (Ehead (at (Blocks da) (BheadC da)), da)
        else panic IndexOutOfRange)
     else if BheadO da \<noteq> 0 then
       (if inb (Blocks da) (BheadO da) then ok (Ehead (at (Blocks da) (BheadO da)), da)
        else panic IndexOutOfRange)
     else rbind (addBlock da) (\<lambda>(bi, da1). ok (push_bit 8 bi, da1)))"

text \<open>
  \<^verbatim>\<open>n\<close> and \<^verbatim>\<open>b\<close> are pointers into \<^verbatim>\<open>da.Array\<close> and \<^verbatim>\<open>da.Blocks\<close>: each read through
  them below is a read of the current state.
\<close>

definition popEnode_unlink :: "cedar \<Rightarrow> int \<Rightarrow> int \<Rightarrow> cedar result" where
  "popEnode_unlink da e bi =
    (if \<not> inb (Array da) (- Value (at (Array da) e)) then panic IndexOutOfRange
     else
       let da1 = set_node da (- Value (at (Array da) e))
                   (\<lambda>p. p\<lparr>Check := Check (at (Array da) e)\<rparr>)
       in if \<not> inb (Array da1) (- Check (at (Array da1) e)) then panic IndexOutOfRange
       else
         let da2 = set_node da1 (- Check (at (Array da1) e))
                     (\<lambda>p. p\<lparr>Value := Value (at (Array da1) e)\<rparr>);
             da3 = (if e = Ehead (at (Blocks da2) bi)
                    then set_block da2 bi (\<lambda>b. b\<lparr>Ehead := - Check (at (Array da2) e)\<rparr>)
                    else da2)
         in if bi \<noteq> 0 \<and> Num (at (Blocks da3) bi) = 1
               \<and> Trial (at (Blocks da3) bi) \<noteq> MaxTrial da3
            then transferBlock da3 bi HO HC else ok da3)"

definition popEnode :: "cedar \<Rightarrow> int \<Rightarrow> int \<Rightarrow> 8 word \<Rightarrow> (int \<times> cedar) result" where
  "popEnode da0 bs from label =
    rbind (if bs < 0 then findPlace da0 else ok (bs XOR uint label, da0)) (\<lambda>(e, da).
      let bi = drop_bit 8 e in
      if \<not> inb (Array da) e then panic IndexOutOfRange
      else if \<not> inb (Blocks da) bi then panic IndexOutOfRange
      else
        let da1 = set_block da bi (\<lambda>b. b\<lparr>Num := Num b - 1\<rparr>) in
        rbind (if Num (at (Blocks da1) bi) = 0
               then (if bi \<noteq> 0 then transferBlock da1 bi HC HF else ok da1)
               else popEnode_unlink da1 e bi) (\<lambda>da2.
          let da3 = set_node da2 e (\<lambda>n. n\<lparr>Value := ValueLimit\<rparr>);
              da4 = set_node da3 e (\<lambda>n. n\<lparr>Check := from\<rparr>)
          in if bs < 0 then
               (if \<not> inb (Array da4) from then panic IndexOutOfRange
                else ok (e, set_node da4 from (\<lambda>n. n\<lparr>Value := - (e XOR uint label) - 1\<rparr>)))
             else ok (e, da4)))"

text \<open>
  The three parts of \<^verbatim>\<open>pushEnode\<close>, after \<^verbatim>\<open>b.Num++\<close>: the branch \<^verbatim>\<open>b.Num == 1\<close>, the
  other branch, and the statements after the conditional.
\<close>

definition pushEnode_single :: "cedar \<Rightarrow> int \<Rightarrow> int \<Rightarrow> cedar result" where
  "pushEnode_single da1 e bi =
    (let da2 = set_block da1 bi (\<lambda>b. b\<lparr>Ehead := e\<rparr>) in
     if \<not> inb (Array da2) e then panic IndexOutOfRange
     else
       let da3 = set_node da2 e (\<lambda>_. \<lparr>Value = - e, Check = - e\<rparr>) in
       if bi \<noteq> 0 then transferBlock da3 bi HF HC else ok da3)"

definition pushEnode_link :: "cedar \<Rightarrow> int \<Rightarrow> int \<Rightarrow> cedar result" where
  "pushEnode_link da1 e bi =
    (let prev = Ehead (at (Blocks da1) bi) in
     if \<not> inb (Array da1) prev then panic IndexOutOfRange
     else
       let next = - Check (at (Array da1) prev) in
       if \<not> inb (Array da1) e then panic IndexOutOfRange
       else
         let da2 = set_node da1 e (\<lambda>_. \<lparr>Value = - prev, Check = - next\<rparr>);
             da3 = set_node da2 prev (\<lambda>n. n\<lparr>Check := - e\<rparr>)
         in if \<not> inb (Array da3) next then panic IndexOutOfRange
         else
           let da4 = set_node da3 next (\<lambda>n. n\<lparr>Value := - e\<rparr>) in
           rbind (if (Num (at (Blocks da4) bi) = 2
                       \<or> Trial (at (Blocks da4) bi) = MaxTrial da4) \<and> bi \<noteq> 0
                  then transferBlock da4 bi HC HO else ok da4) (\<lambda>da5.
             ok (set_block da5 bi (\<lambda>b. b\<lparr>Trial := 0\<rparr>))))"

definition pushEnode_finish :: "cedar \<Rightarrow> int \<Rightarrow> int \<Rightarrow> cedar result" where
  "pushEnode_finish da6 e bi =
    (if \<not> inb (Rejects da6) (Num (at (Blocks da6) bi)) then panic IndexOutOfRange
     else
       let r = at (Rejects da6) (Num (at (Blocks da6) bi));
           da7 = (if Reject (at (Blocks da6) bi) < r
                  then set_block da6 bi (\<lambda>b. b\<lparr>Reject := r\<rparr>) else da6)
       in if \<not> inb (Ninfos da7) e then panic IndexOutOfRange
          else ok (set_ninfo da7 e (\<lambda>_. zero_ninfo)))"

definition pushEnode :: "cedar \<Rightarrow> int \<Rightarrow> cedar result" where
  "pushEnode da e =
    (let bi = drop_bit 8 e in
     if \<not> inb (Blocks da) bi then panic IndexOutOfRange
     else
       let da1 = set_block da bi (\<lambda>b. b\<lparr>Num := Num b + 1\<rparr>) in
       rbind (if Num (at (Blocks da1) bi) = 1 then pushEnode_single da1 e bi
              else pushEnode_link da1 e bi)
         (\<lambda>da6. pushEnode_finish da6 e bi))"

subsection \<open>Sibling chains\<close>

text \<open>
  \<^verbatim>\<open>c\<close> in \<^verbatim>\<open>pushSibling\<close> points at the \<^verbatim>\<open>Child\<close> or at the \<^verbatim>\<open>Sibling\<close> field of an
  element of \<^verbatim>\<open>da.Ninfos\<close>.
\<close>

datatype bref = ChildOf int | SiblingOf int

fun deref :: "cedar \<Rightarrow> bref \<Rightarrow> 8 word" where
  "deref da (ChildOf i) = Child (at (Ninfos da) i)"
| "deref da (SiblingOf i) = Sibling (at (Ninfos da) i)"

fun store :: "cedar \<Rightarrow> bref \<Rightarrow> 8 word \<Rightarrow> cedar" where
  "store da (ChildOf i) v = set_ninfo da i (\<lambda>n. n\<lparr>Child := v\<rparr>)"
| "store da (SiblingOf i) v = set_ninfo da i (\<lambda>n. n\<lparr>Sibling := v\<rparr>)"

partial_function (option) pushSibling_loop ::
  "cedar \<Rightarrow> int \<Rightarrow> 8 word \<Rightarrow> bref \<Rightarrow> bref result" where
  "pushSibling_loop da bs label c =
    (if Ordered da \<and> deref da c \<noteq> 0 \<and> deref da c < label then
       (if inb (Ninfos da) (bs XOR uint (deref da c))
        then pushSibling_loop da bs label (SiblingOf (bs XOR uint (deref da c)))
        else Some (Inl IndexOutOfRange))
     else Some (Inr c))"

definition pushSibling :: "cedar \<Rightarrow> int \<Rightarrow> int \<Rightarrow> 8 word \<Rightarrow> bool \<Rightarrow> cedar result" where
  "pushSibling da from bs label hasChild =
    (if \<not> inb (Ninfos da) from then panic IndexOutOfRange
     else
       let c = ChildOf from;
           keepOrder = (if Ordered da then label > deref da c else deref da c = 0)
       in rbind
            (if hasChild \<and> keepOrder then
               (if inb (Ninfos da) (bs XOR uint (deref da c))
                then pushSibling_loop da bs label (SiblingOf (bs XOR uint (deref da c)))
                else panic IndexOutOfRange)
             else ok c)
            (\<lambda>c. if \<not> inb (Ninfos da) (bs XOR uint label) then panic IndexOutOfRange
                  else ok (store (set_ninfo da (bs XOR uint label)
                                    (\<lambda>n. n\<lparr>Sibling := deref da c\<rparr>)) c label)))"

partial_function (option) consult_loop ::
  "cedar \<Rightarrow> int \<Rightarrow> int \<Rightarrow> 8 word \<Rightarrow> 8 word \<Rightarrow> bool result" where
  "consult_loop da baseN baseP cN cP =
    (if cN \<noteq> 0 \<and> cP \<noteq> 0 then
       (if \<not> inb (Ninfos da) (baseN XOR uint cN) then Some (Inl IndexOutOfRange)
        else if \<not> inb (Ninfos da) (baseP XOR uint cP) then Some (Inl IndexOutOfRange)
        else consult_loop da baseN baseP
               (Sibling (at (Ninfos da) (baseN XOR uint cN)))
               (Sibling (at (Ninfos da) (baseP XOR uint cP))))
     else Some (Inr (cP \<noteq> 0)))"

definition consult :: "cedar \<Rightarrow> int \<Rightarrow> int \<Rightarrow> 8 word \<Rightarrow> 8 word \<Rightarrow> bool result" where
  "consult da baseN baseP cN cP =
    (if \<not> inb (Ninfos da) (baseN XOR uint cN) then panic IndexOutOfRange
     else if \<not> inb (Ninfos da) (baseP XOR uint cP) then panic IndexOutOfRange
     else consult_loop da baseN baseP
            (Sibling (at (Ninfos da) (baseN XOR uint cN)))
            (Sibling (at (Ninfos da) (baseP XOR uint cP))))"

partial_function (option) setChild_ordered ::
  "cedar \<Rightarrow> int \<Rightarrow> 8 word \<Rightarrow> 8 word \<Rightarrow> 8 word list \<Rightarrow> (8 word \<times> 8 word list) result" where
  "setChild_ordered da bs label c child =
    (if c \<noteq> 0 \<and> c \<le> label then
       (if inb (Ninfos da) (bs XOR uint c)
        then setChild_ordered da bs label (Sibling (at (Ninfos da) (bs XOR uint c))) (child @ [c])
        else Some (Inl IndexOutOfRange))
     else Some (Inr (c, child)))"

partial_function (option) setChild_rest ::
  "cedar \<Rightarrow> int \<Rightarrow> 8 word \<Rightarrow> 8 word list \<Rightarrow> 8 word list result" where
  "setChild_rest da bs c child =
    (if c \<noteq> 0 then
       (if inb (Ninfos da) (bs XOR uint c)
        then setChild_rest da bs (Sibling (at (Ninfos da) (bs XOR uint c))) (child @ [c])
        else Some (Inl IndexOutOfRange))
     else Some (Inr child))"

definition setChild :: "cedar \<Rightarrow> int \<Rightarrow> 8 word \<Rightarrow> 8 word \<Rightarrow> bool \<Rightarrow> 8 word list result" where
  "setChild da bs c0 label flag =
    rbind (if c0 = 0 then
             (if inb (Ninfos da) (bs XOR uint c0)
              then ok (Sibling (at (Ninfos da) (bs XOR uint c0)), [c0])
              else panic IndexOutOfRange)
           else ok (c0, [])) (\<lambda>(c1, child1).
      rbind (if Ordered da then setChild_ordered da bs label c1 child1 else ok (c1, child1))
        (\<lambda>(c2, child2).
           setChild_rest da bs c2 (if flag then child2 @ [label] else child2)))"

subsection \<open>findPlaces\<close>

text \<open>
  The inner loop of \<^verbatim>\<open>listEhead\<close> runs \<^verbatim>\<open>i\<close> over the children that are left; it answers
  whether every slot \<^verbatim>\<open>base ^ child[i]\<close> is free.
\<close>

fun listEhead_fits :: "cedar \<Rightarrow> int \<Rightarrow> 8 word list \<Rightarrow> error + bool" where
  "listEhead_fits da bs [] = Inl IndexOutOfRange"
| "listEhead_fits da bs (c # cs) =
    (if \<not> inb (Array da) (bs XOR uint c) then Inl IndexOutOfRange
     else if Check (at (Array da) (bs XOR uint c)) < 0 then
       (if cs = [] then Inr True else listEhead_fits da bs cs)
     else Inr False)"

partial_function (option) listEhead_loop ::
  "cedar \<Rightarrow> int \<Rightarrow> 8 word list \<Rightarrow> int \<Rightarrow> (int \<times> cedar) result" where
  "listEhead_loop da bi child e =
    (case child of
       [] \<Rightarrow> Some (Inl IndexOutOfRange)
     | c0 # _ \<Rightarrow>
        (case listEhead_fits da (e XOR uint c0) child of
           Inl err \<Rightarrow> Some (Inl err)
         | Inr fits \<Rightarrow>
            (if fits then Some (Inr (e, set_block da bi (\<lambda>b. b\<lparr>Ehead := e\<rparr>)))
             else if \<not> inb (Array da) e then Some (Inl IndexOutOfRange)
             else if - Check (at (Array da) e) = Ehead (at (Blocks da) bi)
             then Some (Inr (0, da))
             else listEhead_loop da bi child (- Check (at (Array da) e)))))"

definition listEhead :: "cedar \<Rightarrow> int \<Rightarrow> 8 word list \<Rightarrow> (int \<times> cedar) result" where
  "listEhead da bi child = listEhead_loop da bi child (Ehead (at (Blocks da) bi))"

definition listBi_reject :: "cedar \<Rightarrow> int \<Rightarrow> int \<Rightarrow> cedar result" where
  "listBi_reject da bi nc =
    (let da1 = set_block da bi (\<lambda>b. b\<lparr>Reject := nc\<rparr>) in
     if \<not> inb (Rejects da1) (Num (at (Blocks da1) bi)) then panic IndexOutOfRange
     else
       let da2 = (if Reject (at (Blocks da1) bi) < at (Rejects da1) (Num (at (Blocks da1) bi))
                  then da1\<lparr>Rejects := upd (Rejects da1) (Num (at (Blocks da1) bi))
                                        (Reject (at (Blocks da1) bi))\<rparr>
                  else da1);
           da3 = set_block da2 bi (\<lambda>b. b\<lparr>Trial := Trial b + 1\<rparr>)
       in if Trial (at (Blocks da3) bi) = MaxTrial da3 then transferBlock da3 bi HO HC
          else ok da3)"

partial_function (option) listBi_loop ::
  "cedar \<Rightarrow> int \<Rightarrow> 8 word list \<Rightarrow> int \<Rightarrow> (int \<times> cedar) result" where
  "listBi_loop da bi child bz =
    (if \<not> inb (Blocks da) bi then Some (Inl IndexOutOfRange)
     else
       case (if Num (at (Blocks da) bi) \<ge> int (length child)
                \<and> int (length child) < Reject (at (Blocks da) bi)
             then listEhead da bi child else Some (Inr (0, da))) of
         None \<Rightarrow> None
       | Some (Inl err) \<Rightarrow> Some (Inl err)
       | Some (Inr (e, da1)) \<Rightarrow>
           if e > 0 then Some (Inr (e, da1))
           else
             (case listBi_reject da1 bi (int (length child)) of
                None \<Rightarrow> None
              | Some (Inl err) \<Rightarrow> Some (Inl err)
              | Some (Inr da2) \<Rightarrow>
                  if bi = bz then Some (Inr (0, da2))
                  else listBi_loop da2 (Next (at (Blocks da1) bi)) child bz))"

definition listBi :: "cedar \<Rightarrow> int \<Rightarrow> 8 word list \<Rightarrow> (int \<times> cedar) result" where
  "listBi da bi child =
    (if \<not> inb (Blocks da) (BheadO da) then panic IndexOutOfRange
     else listBi_loop da bi child (Prev (at (Blocks da) (BheadO da))))"

definition findPlaces :: "cedar \<Rightarrow> 8 word list \<Rightarrow> (int \<times> cedar) result" where
  "findPlaces da child =
    rbind (if BheadO da \<noteq> 0 then listBi da (BheadO da) child else ok (0, da)) (\<lambda>(e, da1).
      if e > 0 then ok (e, da1)
      else rbind (addBlock da1) (\<lambda>(bi, da2). ok (push_bit 8 bi, da2)))"

subsection \<open>Conflict resolution\<close>

text \<open>
  The loop of \<^verbatim>\<open>list\<close> that points the grandchildren at the new slot \<^verbatim>\<open>to\<close> of their
  parent; \<^verbatim>\<open>n.base()\<close> is read through the pointer \<^verbatim>\<open>n = &da.Array[to]\<close> each time.
\<close>

partial_function (option) list_rewire :: "cedar \<Rightarrow> int \<Rightarrow> 8 word \<Rightarrow> cedar result" where
  "list_rewire da to c =
    (if \<not> inb (Array da) (base (at (Array da) to) XOR uint c) then Some (Inl IndexOutOfRange)
     else
       let da1 = set_node da (base (at (Array da) to) XOR uint c) (\<lambda>n. n\<lparr>Check := to\<rparr>) in
       if \<not> inb (Ninfos da1) (base (at (Array da1) to) XOR uint c)
       then Some (Inl IndexOutOfRange)
       else if Sibling (at (Ninfos da1) (base (at (Array da1) to) XOR uint c)) \<noteq> 0
       then list_rewire da1 to (Sibling (at (Ninfos da1) (base (at (Array da1) to) XOR uint c)))
       else Some (Inr da1))"

text \<open>
  One iteration of the loop of \<^verbatim>\<open>list\<close>, for the child \<open>c = children[i]\<close>, with
  \<open>cs\<close> the children after it. It returns the current \<^verbatim>\<open>fromN\<close> and the state.
\<close>

definition list_step ::
  "cedar \<Rightarrow> int \<Rightarrow> int \<Rightarrow> int \<Rightarrow> int \<Rightarrow> int \<Rightarrow> 8 word \<Rightarrow> bool \<Rightarrow> 8 word \<Rightarrow> 8 word list
     \<Rightarrow> (int \<times> cedar) result" where
  "list_step da0 bs from nbase fromN toPn labelN flag c cs =
    rbind (popEnode da0 bs from c) (\<lambda>(to, da1).
      let newTo = nbase XOR uint c in
      if \<not> inb (Ninfos da1) to then panic IndexOutOfRange
      else
        let da2 = set_ninfo da1 to (\<lambda>n. n\<lparr>Sibling := (case cs of [] \<Rightarrow> 0 | c' # _ \<Rightarrow> c')\<rparr>) in
        if flag \<and> newTo = toPn then ok (fromN, da2)
        else if \<not> inb (Array da2) to then panic IndexOutOfRange
        else if \<not> inb (Array da2) newTo then panic IndexOutOfRange
        else
          let da3 = set_node da2 to (\<lambda>n. n\<lparr>Value := Value (at (Array da2) newTo)\<rparr>) in
          rbind
            (if Value (at (Array da3) to) < 0 \<and> c \<noteq> 0 then
               (if \<not> inb (Ninfos da3) newTo then panic IndexOutOfRange
                else list_rewire
                       (set_ninfo da3 to (\<lambda>n. n\<lparr>Child := Child (at (Ninfos da3) newTo)\<rparr>))
                       to (Child (at (Ninfos da3) newTo)))
             else ok da3) (\<lambda>da4.
            let fromN1 = (if \<not> flag \<and> newTo = fromN then to else fromN) in
            if \<not> flag \<and> newTo = toPn then
              rbind (pushSibling da4 fromN1 (toPn XOR uint labelN) labelN True) (\<lambda>da5.
                if \<not> inb (Ninfos da5) newTo then panic IndexOutOfRange
                else
                  let da6 = set_ninfo da5 newTo (\<lambda>n. n\<lparr>Child := 0\<rparr>);
                      da7 = set_node da6 newTo (\<lambda>n. n\<lparr>Value := ValueLimit\<rparr>);
                      da8 = set_node da7 newTo (\<lambda>n. n\<lparr>Check := fromN1\<rparr>)
                  in ok (fromN1, da8))
            else rbind (pushEnode da4 newTo) (\<lambda>da5. ok (fromN1, da5))))"

fun list_loop ::
  "cedar \<Rightarrow> int \<Rightarrow> int \<Rightarrow> int \<Rightarrow> int \<Rightarrow> int \<Rightarrow> 8 word \<Rightarrow> bool \<Rightarrow> 8 word list \<Rightarrow> cedar result" where
  "list_loop da bs from nbase fromN toPn labelN flag [] = ok da"
| "list_loop da bs from nbase fromN toPn labelN flag (c # cs) =
    (case list_step da bs from nbase fromN toPn labelN flag c cs of
       None \<Rightarrow> None
     | Some (Inl err) \<Rightarrow> Some (Inl err)
     | Some (Inr (fromN1, da1)) \<Rightarrow> list_loop da1 bs from nbase fromN1 toPn labelN flag cs)"

definition list_children ::
  "cedar \<Rightarrow> int \<Rightarrow> int \<Rightarrow> int \<Rightarrow> int \<Rightarrow> int \<Rightarrow> 8 word \<Rightarrow> 8 word list \<Rightarrow> bool
     \<Rightarrow> ((int \<times> 8 word \<times> int) \<times> cedar) result" where
  "list_children da bs from nbase fromN toPn labelN children flag =
    rbind (list_loop da bs from nbase fromN toPn labelN flag children)
      (\<lambda>da1. ok ((bs, labelN, toPn), da1))"

text \<open>
  \<^verbatim>\<open>resolve\<close> after the call of \<^verbatim>\<open>consult\<close>: \<open>flag\<close> chooses the sibling chain that is
  moved, the one of the new parent \<^verbatim>\<open>fromN\<close> or the one of the incumbent \<^verbatim>\<open>fromP\<close>.
\<close>

definition resolve_move ::
  "cedar \<Rightarrow> int \<Rightarrow> int \<Rightarrow> 8 word \<Rightarrow> int \<Rightarrow> int \<Rightarrow> bool \<Rightarrow> (int \<times> cedar) result" where
  "resolve_move da fromN baseN labelN fromP baseP flag =
    (let toPn = baseN XOR uint labelN in
     rbind (if flag then setChild da baseN (Child (at (Ninfos da) fromN)) labelN True
            else setChild da baseP (Child (at (Ninfos da) fromP)) 255 False) (\<lambda>children.
     rbind (if length children = 1 then findPlace da else findPlaces da children)
       (\<lambda>(e, da1).
         case children of
           [] \<Rightarrow> panic IndexOutOfRange
         | c0 # _ \<Rightarrow>
             let bs = e XOR uint c0;
                 from = (if flag then fromN else fromP);
                 nbase = (if flag then baseN else baseP)
             in if flag \<and> c0 = labelN \<and> \<not> inb (Ninfos da1) from
                then panic IndexOutOfRange
                else
                  let da2 = (if flag \<and> c0 = labelN
                             then set_ninfo da1 from (\<lambda>n. n\<lparr>Child := labelN\<rparr>)
                             else da1)
                  in if \<not> inb (Array da2) from then panic IndexOutOfRange
                     else
                       rbind (list_children
                                (set_node da2 from (\<lambda>n. n\<lparr>Value := - bs - 1\<rparr>))
                                bs from nbase fromN toPn labelN children flag)
                         (\<lambda>((bs1, labelN1, toPn1), da3).
                            if flag then ok (bs1 XOR uint labelN1, da3)
                            else ok (toPn1, da3)))))"

definition resolve :: "cedar \<Rightarrow> int \<Rightarrow> int \<Rightarrow> 8 word \<Rightarrow> (int \<times> cedar) result" where
  "resolve da fromN baseN labelN =
    (let toPn = baseN XOR uint labelN in
     if \<not> inb (Array da) toPn then panic IndexOutOfRange
     else
       let fromP = Check (at (Array da) toPn) in
       if \<not> inb (Array da) fromP then panic IndexOutOfRange
       else
         let baseP = base (at (Array da) fromP) in
         if \<not> inb (Ninfos da) fromN then panic IndexOutOfRange
         else if \<not> inb (Ninfos da) fromP then panic IndexOutOfRange
         else
           rbind (consult da baseN baseP (Child (at (Ninfos da) fromN))
                    (Child (at (Ninfos da) fromP)))
             (resolve_move da fromN baseN labelN fromP baseP))"

subsection \<open>follow and getV\<close>

definition follow :: "cedar \<Rightarrow> int \<Rightarrow> 8 word \<Rightarrow> (int \<times> cedar) result" where
  "follow da from label =
    (if \<not> inb (Array da) from then panic IndexOutOfRange
     else
       let bs = base (at (Array da) from);
           to = bs XOR uint label
       in if bs \<ge> 0 \<and> \<not> inb (Array da) to then panic IndexOutOfRange
          else if bs < 0 \<or> Check (at (Array da) to) < 0 then
            rbind (if bs \<ge> 0 then
                     (if \<not> inb (Ninfos da) from then panic IndexOutOfRange
                      else if \<not> inb (Array da) (bs XOR uint (Child (at (Ninfos da) from)))
                      then panic IndexOutOfRange
                      else ok (Check (at (Array da)
                                 (bs XOR uint (Child (at (Ninfos da) from)))) = from))
                   else ok False) (\<lambda>hasChild.
            rbind (popEnode da bs from label) (\<lambda>(to1, da1).
            rbind (pushSibling da1 from (to1 XOR uint label) label hasChild) (\<lambda>da2.
              ok (to1, da2))))
          else if Check (at (Array da) to) \<noteq> from then resolve da from bs label
          else if Check (at (Array da) to) = from then ok (to, da)
          else panic InternalError)"

text \<open>
  The first statement of the loop body of \<^verbatim>\<open>getV\<close>: a terminal value found at \<^verbatim>\<open>from\<close>
  is moved to the child of \<^verbatim>\<open>from\<close> under the label 0.
\<close>

definition getV_move :: "cedar \<Rightarrow> int \<Rightarrow> cedar result" where
  "getV_move da from =
    (if \<not> inb (Array da) from then panic IndexOutOfRange
     else
       let v = Value (at (Array da) from) in
       if v \<ge> 0 \<and> v \<noteq> ValueLimit then
         rbind (follow da from 0) (\<lambda>(to, da1).
           if \<not> inb (Array da1) to then panic IndexOutOfRange
           else ok (set_node da1 to (\<lambda>n. n\<lparr>Value := v\<rparr>)))
       else ok da)"

function getV :: "cedar \<Rightarrow> 8 word list \<Rightarrow> int \<Rightarrow> int \<Rightarrow> (int \<times> cedar) result" where
  "getV da key from pos =
    (if pos < int (length key) then
       (case getV_move da from of
          None \<Rightarrow> None
        | Some (Inl err) \<Rightarrow> Some (Inl err)
        | Some (Inr da1) \<Rightarrow>
            if pos < 0 then Some (Inl IndexOutOfRange)
            else
              (case follow da1 from (key ! nat pos) of
                 None \<Rightarrow> None
               | Some (Inl err) \<Rightarrow> Some (Inl err)
               | Some (Inr (to, da2)) \<Rightarrow> getV da2 key to (pos + 1)))
     else if \<not> inb (Array da) from then panic IndexOutOfRange
     else if Value (at (Array da) from) < 0 then follow da from 0
     else ok (from, da))"
  by pat_completeness auto
termination
  by (relation "measure (\<lambda>(da, key, from, pos). nat (int (length key) - pos))") auto

text \<open>The loops are run by their defining equations.\<close>

declare pushSibling_loop.simps [code]
declare consult_loop.simps [code]
declare setChild_ordered.simps [code]
declare setChild_rest.simps [code]
declare listEhead_loop.simps [code]
declare listBi_loop.simps [code]
declare list_rewire.simps [code]

declare addBlock_loop.simps [simp del]
declare getV.simps [simp del]

subsection \<open>Auxiliary notions for the properties\<close>

text \<open>A call that does not end in the explicit \<^verbatim>\<open>panic\<close> of \<^verbatim>\<open>follow\<close>.\<close>

definition no_internal :: "'a result \<Rightarrow> bool" where
  "no_internal r \<longleftrightarrow> r \<noteq> Some (Inl InternalError)"


text \<open>
  The sibling chain of a parent with base \<open>bs\<close>, from the label \<open>c\<close> on: \<open>c\<close>, then the
  \<^verbatim>\<open>Sibling\<close> of the slot \<open>bs XOR c\<close>, and so on until a \<^verbatim>\<open>Sibling\<close> is 0. It is \<open>None\<close>
  when the chain leaves \<^verbatim>\<open>Ninfos\<close> or never ends.
\<close>

partial_function (option) chain_from :: "cedar \<Rightarrow> int \<Rightarrow> 8 word \<Rightarrow> 8 word list option" where
  "chain_from da bs c =
    (if \<not> inb (Ninfos da) (bs XOR uint c) then None
     else if Sibling (at (Ninfos da) (bs XOR uint c)) = 0 then Some [c]
     else Option.bind (chain_from da bs (Sibling (at (Ninfos da) (bs XOR uint c))))
            (\<lambda>cs. Some (c # cs)))"

declare chain_from.simps [code]

definition chain_rest :: "cedar \<Rightarrow> int \<Rightarrow> 8 word \<Rightarrow> 8 word list option" where
  "chain_rest da bs s = (if s = 0 then Some [] else chain_from da bs s)"

text \<open>The slots of block \<open>bi\<close> that are free, that is, whose \<^verbatim>\<open>Check\<close> is negative.\<close>

definition free_slots :: "cedar \<Rightarrow> int \<Rightarrow> int list" where
  "free_slots da bi =
     filter (\<lambda>s. Check (at (Array da) s) < 0) (map (\<lambda>k. 256 * bi + int k) [0..<256])"

text \<open>
  The ring of blocks behind a head: the blocks met from the head along \<^verbatim>\<open>Next\<close> until the
  head comes back, at most as many as there are blocks.
\<close>

fun ring_walk :: "cedar \<Rightarrow> nat \<Rightarrow> int \<Rightarrow> int \<Rightarrow> int list" where
  "ring_walk da 0 h b = []"
| "ring_walk da (Suc n) h b =
     b # (if Next (at (Blocks da) b) = h then [] else ring_walk da n h (Next (at (Blocks da) b)))"

definition ring :: "cedar \<Rightarrow> head \<Rightarrow> int list" where
  "ring da h =
     (if get_head da h = 0 then []
      else ring_walk da (nat (len (Blocks da))) (get_head da h) (get_head da h))"

text \<open>
  Two states agree on everything but the links of the block rings: the ring heads and the
  \<^verbatim>\<open>Prev\<close> and \<^verbatim>\<open>Next\<close> fields of the blocks.
\<close>

definition same_trie :: "cedar \<Rightarrow> cedar \<Rightarrow> bool" where
  "same_trie da da' \<longleftrightarrow> Array da' = Array da \<and> Ninfos da' = Ninfos da \<and> Rejects da' = Rejects da
     \<and> Capacity da' = Capacity da \<and> Size da' = Size da \<and> Ordered da' = Ordered da
     \<and> MaxTrial da' = MaxTrial da \<and> len (Blocks da') = len (Blocks da)
     \<and> (\<forall>b. Num (at (Blocks da') b) = Num (at (Blocks da) b)
           \<and> Trial (at (Blocks da') b) = Trial (at (Blocks da) b)
           \<and> Ehead (at (Blocks da') b) = Ehead (at (Blocks da) b)
           \<and> Reject (at (Blocks da') b) = Reject (at (Blocks da) b))"

text \<open>
  A sibling chain \<open>cs\<close> with one more label: in ordered mode the label comes after the
  labels of the chain that are not greater, otherwise it comes first, behind a leading
  label 0.
\<close>

definition with_label :: "bool \<Rightarrow> 8 word \<Rightarrow> 8 word list \<Rightarrow> 8 word list" where
  "with_label ord label cs =
    (if ord then takeWhile (\<lambda>c. c \<le> label) cs @ label # dropWhile (\<lambda>c. c \<le> label) cs
     else if hd cs = 0 then 0 # label # tl cs
     else label # cs)"

text \<open>
  States reached from \<^verbatim>\<open>New()\<close> by insertions: after the keys \<^verbatim>\<open>"dee"\<close> and \<^verbatim>\<open>"dc"\<close>, and
  after the key \<^verbatim>\<open>"dac"\<close>.
\<close>

definition state_of :: "(int \<times> cedar) result \<Rightarrow> cedar" where
  "state_of r = (case r of Some (Inr (t, da)) \<Rightarrow> da | _ \<Rightarrow> New)"

definition keys_dee_dc :: cedar where
  "keys_dee_dc = state_of (getV (state_of (getV New [100, 101, 101] 0 0)) [100, 99] 0 0)"

definition keys_dac :: cedar where
  "keys_dac = state_of (getV New [100, 97, 99] 0 0)"

(*DEFS-END*)

section \<open>Properties\<close>

subsection \<open>The explicit panic of follow is dead code\<close>

named_theorems ni

lemma ni_ok [ni]: "no_internal (ok x)" by (simp add: no_internal_def ok_def)
lemma ni_panic1 [ni]: "no_internal (panic IndexOutOfRange)" by (simp add: no_internal_def panic_def)
lemma ni_panic2 [ni]: "no_internal (panic MakeSliceLen)" by (simp add: no_internal_def panic_def)
lemma ni_panic3 [ni]: "e \<noteq> InternalError \<Longrightarrow> no_internal (panic e)" by (simp add: no_internal_def panic_def)
lemma ni_None [ni]: "no_internal None" by (simp add: no_internal_def)
lemma ni_Inr [ni]: "no_internal (Some (Inr x))" by (simp add: no_internal_def)
lemma ni_Inl1 [ni]: "no_internal (Some (Inl IndexOutOfRange))" by (simp add: no_internal_def)
lemma ni_rbind [ni]: "no_internal m \<Longrightarrow> (\<And>x. no_internal (f x)) \<Longrightarrow> no_internal (rbind m f)"
  by (auto simp: no_internal_def rbind_def Option.bind_eq_Some_conv split: sum.splits)
lemma ni_if [ni]: "(c \<Longrightarrow> no_internal a) \<Longrightarrow> (\<not> c \<Longrightarrow> no_internal b) \<Longrightarrow> no_internal (if c then a else b)"
  by simp
lemma ni_let [ni]: "no_internal (f a) \<Longrightarrow> no_internal (Let a f)" by simp
lemma ni_prod [ni]: "(\<And>a b. no_internal (f a b)) \<Longrightarrow> no_internal (case p of (a, b) \<Rightarrow> f a b)"
  by (cases p) simp
lemma ni_list [ni]: "no_internal a \<Longrightarrow> (\<And>x xs. no_internal (g x xs)) \<Longrightarrow> no_internal (case l of [] \<Rightarrow> a | x # xs \<Rightarrow> g x xs)"
  by (cases l) simp_all
lemma ni_option [ni]: "no_internal a \<Longrightarrow> (\<And>x. no_internal (g x)) \<Longrightarrow> no_internal (case l of None \<Rightarrow> a | Some x \<Rightarrow> g x)"
  by (cases l) simp_all

lemma popBlock_ni [ni]: "no_internal (popBlock da bi h l)"
  unfolding popBlock_def by (intro ni)
lemma pushBlock_ni [ni]: "no_internal (pushBlock da bi h l)"
  unfolding pushBlock_def by (intro ni)
lemma transferBlock_ni [ni]: "no_internal (transferBlock da bi h l)"
  unfolding transferBlock_def by (intro ni)
lemma addBlock_loop_ni: "addBlock_loop a i hi \<noteq> Inl InternalError"
  by (induction a i hi rule: addBlock_loop.induct) (subst addBlock_loop.simps, simp)
lemma grow_ni [ni]: "no_internal (grow da)"
  unfolding grow_def by (intro ni)
lemma addBlock_loop_case_ni [ni]:
  "(\<And>a. no_internal (g a)) \<Longrightarrow>
   no_internal (case addBlock_loop x i hi of Inl e \<Rightarrow> panic e | Inr a \<Rightarrow> g a)"
  using addBlock_loop_ni [of x i hi]
  by (cases "addBlock_loop x i hi") (auto simp: no_internal_def panic_def)
lemma addBlock_ni [ni]: "no_internal (addBlock da)"
  unfolding addBlock_def by (intro ni)
lemma findPlace_ni [ni]: "no_internal (findPlace da)"
  unfolding findPlace_def by (intro ni)
lemma popEnode_unlink_ni [ni]: "no_internal (popEnode_unlink da e bi)"
  unfolding popEnode_unlink_def by (intro ni)
lemma popEnode_ni [ni]: "no_internal (popEnode da e bi l)"
  unfolding popEnode_def by (intro ni)
lemma pushEnode_single_ni [ni]: "no_internal (pushEnode_single da e bi)"
  unfolding pushEnode_single_def by (intro ni)
lemma pushEnode_link_ni [ni]: "no_internal (pushEnode_link da e bi)"
  unfolding pushEnode_link_def by (intro ni)
lemma pushEnode_finish_ni [ni]: "no_internal (pushEnode_finish da e bi)"
  unfolding pushEnode_finish_def by (intro ni)
lemma pushEnode_ni [ni]: "no_internal (pushEnode da e)"
  unfolding pushEnode_def by (intro ni)

lemma pushSibling_loop_ni [ni]: "no_internal (pushSibling_loop da bs label c)"
proof -
  have "pushSibling_loop da bs label c = Some y \<Longrightarrow> y \<noteq> Inl InternalError" for y
    by (rule pushSibling_loop.raw_induct [where P = "\<lambda>_ _ _ _ y. y \<noteq> Inl InternalError"])
       (auto split: if_splits)
  then show ?thesis by (auto simp: no_internal_def)
qed
lemma pushSibling_ni [ni]: "no_internal (pushSibling da from bs label h)"
  unfolding pushSibling_def by (intro ni)
lemma consult_loop_ni [ni]: "no_internal (consult_loop da a b c d)"
proof -
  have "consult_loop da a b c d = Some y \<Longrightarrow> y \<noteq> Inl InternalError" for y
    by (rule consult_loop.raw_induct [where P = "\<lambda>_ _ _ _ _ y. y \<noteq> Inl InternalError"])
       (auto split: if_splits)
  then show ?thesis by (auto simp: no_internal_def)
qed
lemma consult_ni [ni]: "no_internal (consult da a b c d)"
  unfolding consult_def by (intro ni)
lemma setChild_ordered_ni [ni]: "no_internal (setChild_ordered da a b c d)"
proof -
  have "setChild_ordered da a b c d = Some y \<Longrightarrow> y \<noteq> Inl InternalError" for y
    by (rule setChild_ordered.raw_induct [where P = "\<lambda>_ _ _ _ _ y. y \<noteq> Inl InternalError"])
       (auto split: if_splits)
  then show ?thesis by (auto simp: no_internal_def)
qed
lemma setChild_rest_ni [ni]: "no_internal (setChild_rest da a c d)"
proof -
  have "setChild_rest da a c d = Some y \<Longrightarrow> y \<noteq> Inl InternalError" for y
    by (rule setChild_rest.raw_induct [where P = "\<lambda>_ _ _ _ y. y \<noteq> Inl InternalError"])
       (auto split: if_splits)
  then show ?thesis by (auto simp: no_internal_def)
qed
lemma setChild_ni [ni]: "no_internal (setChild da a b c d)"
  unfolding setChild_def by (intro ni)
lemma listEhead_fits_ni: "listEhead_fits da bs cs \<noteq> Inl InternalError"
  by (induction cs) auto
lemma listEhead_loop_ni [ni]: "no_internal (listEhead_loop da a c d)"
proof -
  have "listEhead_loop da a c d = Some y \<Longrightarrow> y \<noteq> Inl InternalError" for y
    by (rule listEhead_loop.raw_induct [where P = "\<lambda>_ _ _ _ y. y \<noteq> Inl InternalError"])
       (use listEhead_fits_ni in \<open>auto split: if_splits list.splits sum.splits\<close>)
  then show ?thesis by (auto simp: no_internal_def)
qed
lemma listEhead_ni [ni]: "no_internal (listEhead da a c)"
  unfolding listEhead_def by (intro ni)
lemma listBi_reject_ni [ni]: "no_internal (listBi_reject da a c)"
  unfolding listBi_reject_def by (intro ni)
lemma listBi_loop_ni [ni]: "no_internal (listBi_loop da a c d)"
proof -
  have "listBi_loop da a c d = Some y \<Longrightarrow> y \<noteq> Inl InternalError" for y
    by (rule listBi_loop.raw_induct [where P = "\<lambda>_ _ _ _ y. y \<noteq> Inl InternalError"])
       (use listEhead_ni listBi_reject_ni in
         \<open>auto simp: no_internal_def split: if_splits option.splits sum.splits prod.splits\<close>)
  then show ?thesis by (auto simp: no_internal_def)
qed
lemma listBi_ni [ni]: "no_internal (listBi da a c)"
  unfolding listBi_def by (intro ni)
lemma findPlaces_ni [ni]: "no_internal (findPlaces da c)"
  unfolding findPlaces_def by (intro ni)
lemma list_rewire_ni [ni]: "no_internal (list_rewire da a c)"
proof -
  have "list_rewire da a c = Some y \<Longrightarrow> y \<noteq> Inl InternalError" for y
    by (rule list_rewire.raw_induct [where P = "\<lambda>_ _ _ y. y \<noteq> Inl InternalError"])
       (auto simp: Let_def split: if_splits)
  then show ?thesis by (auto simp: no_internal_def)
qed
lemma list_step_ni [ni]: "no_internal (list_step da bs from nbase fromN toPn labelN flag c cs)"
  unfolding list_step_def by (intro ni)
lemma list_loop_ni [ni]: "no_internal (list_loop da bs from nbase fromN toPn labelN flag cs)"
proof (induction cs arbitrary: da fromN)
  case Nil
  show ?case by (simp add: ni)
next
  case (Cons c cs)
  show ?case
    using list_step_ni [of da bs "from" nbase fromN toPn labelN flag c cs] Cons.IH
    by (auto simp: no_internal_def split: option.splits sum.splits prod.splits)
qed
lemma list_children_ni [ni]:
  "no_internal (list_children da bs from nbase fromN toPn labelN children flag)"
  unfolding list_children_def by (intro ni)
lemma resolve_move_ni [ni]: "no_internal (resolve_move da fromN baseN labelN fromP baseP flag)"
  unfolding resolve_move_def by (intro ni) (auto intro: ni split: prod.splits)
lemma resolve_ni [ni]: "no_internal (resolve da fromN baseN labelN)"
  unfolding resolve_def by (intro ni)


text \<open>
  C10. For every state and every pair \<open>(from, label)\<close>, \<^verbatim>\<open>follow\<close> never ends in
  \<^verbatim>\<open>panic("Cedar: internal error, should not be here")\<close>: it does not return, or it
  panics on an index, or it returns through one of its three cases.
\<close>

theorem follow_never_internal_error: "follow da from label \<noteq> Some (Inl InternalError)"
proof -
  have "no_internal (follow da from label)"
    unfolding follow_def
    by (intro ni_if ni_let ni_rbind ni_prod ni_ok ni_panic1 popEnode_ni pushSibling_ni resolve_ni)
       simp
  then show ?thesis by (simp add: no_internal_def)
qed


subsection \<open>Evaluation of the result monad\<close>

lemma rbind_simps [simp]:
  "rbind None f = None" "rbind (Some (Inl e)) f = Some (Inl e)" "rbind (Some (Inr x)) f = f x"
  "rbind (ok x) f = f x" "rbind (panic e) f = panic e"
  by (simp_all add: rbind_def ok_def panic_def)

lemma rbind_weak_cong: "m = m' \<Longrightarrow> rbind m f = rbind m' f"
  by simp

lemma ok_eq [simp]: "ok x = Some (Inr y) \<longleftrightarrow> x = y" "ok x \<noteq> Some (Inl e)" "ok x \<noteq> None"
  "panic e \<noteq> Some (Inr y)" "panic e \<noteq> None" "ok x \<noteq> panic e"
  by (simp_all add: ok_def panic_def)

lemma rbind_eq_Inr:
  "rbind m f = Some (Inr y) \<longleftrightarrow> (\<exists>x. m = Some (Inr x) \<and> f x = Some (Inr y))"
  by (cases m) (auto simp: rbind_def split: sum.splits)

subsection \<open>consult compares the lengths of the two sibling chains\<close>

lemma chain_from_Some:
  "chain_from da bs c = Some cs \<longleftrightarrow>
     inb (Ninfos da) (bs XOR uint c) \<and>
     (\<exists>cs'. cs = c # cs' \<and> chain_rest da bs (Sibling (at (Ninfos da) (bs XOR uint c))) = Some cs')"
  by (subst chain_from.simps) (auto simp: chain_rest_def Option.bind_eq_Some_conv)

lemma chain_rest_Nil: "chain_rest da bs s = Some [] \<longleftrightarrow> s = 0"
  unfolding chain_rest_def using chain_from_Some [of da bs s "[]"] by auto

lemma chain_rest_Cons:
  "chain_rest da bs s = Some (x # cs) \<longleftrightarrow>
     s \<noteq> 0 \<and> x = s \<and> inb (Ninfos da) (bs XOR uint s) \<and>
     chain_rest da bs (Sibling (at (Ninfos da) (bs XOR uint s))) = Some cs"
  using chain_from_Some [of da bs s "x # cs"] by (auto simp: chain_rest_def [of da bs s])

lemma consult_loop_length:
  "chain_rest da baseN sN = Some ns \<Longrightarrow> chain_rest da baseP sP = Some ps \<Longrightarrow>
   consult_loop da baseN baseP sN sP = Some (Inr (length ns < length ps))"
proof (induction ns arbitrary: sN sP ps)
  case Nil
  then have "sN = 0" by (simp add: chain_rest_Nil)
  moreover have "sP \<noteq> 0 \<longleftrightarrow> 0 < length ps"
    using Nil(2) by (cases ps) (auto simp: chain_rest_Nil chain_rest_Cons)
  ultimately show ?case by (subst consult_loop.simps) simp
next
  case (Cons x ns)
  from Cons.prems(1) have n: "sN \<noteq> 0" "inb (Ninfos da) (baseN XOR uint sN)"
    "chain_rest da baseN (Sibling (at (Ninfos da) (baseN XOR uint sN))) = Some ns"
    by (simp_all add: chain_rest_Cons)
  show ?case
  proof (cases ps)
    case Nil
    with Cons.prems(2) have "sP = 0" by (simp add: chain_rest_Nil)
    with Nil show ?thesis by (subst consult_loop.simps) simp
  next
    case (Cons y ps')
    with Cons.prems(2) have p: "sP \<noteq> 0" "inb (Ninfos da) (baseP XOR uint sP)"
      "chain_rest da baseP (Sibling (at (Ninfos da) (baseP XOR uint sP))) = Some ps'"
      by (simp_all add: chain_rest_Cons)
    from Cons.IH [OF n(3) p(3)] n p Cons show ?thesis
      by (subst consult_loop.simps) simp
  qed
qed

subsection \<open>Updates of one slot or block\<close>

lemma set_node_simps [simp]:
  "Ninfos (set_node da i f) = Ninfos da" "Blocks (set_node da i f) = Blocks da"
  "Rejects (set_node da i f) = Rejects da" "BheadF (set_node da i f) = BheadF da"
  "BheadC (set_node da i f) = BheadC da" "BheadO (set_node da i f) = BheadO da"
  "Capacity (set_node da i f) = Capacity da" "Size (set_node da i f) = Size da"
  "Ordered (set_node da i f) = Ordered da" "MaxTrial (set_node da i f) = MaxTrial da"
  "get_head (set_node da i f) h = get_head da h"
  "len (Array (set_node da i f)) = len (Array da)"
  "inb (Array (set_node da i f)) j = inb (Array da) j"
  "at (Array (set_node da i f)) j = (if j = i then f (at (Array da) i) else at (Array da) j)"
  by (cases h; simp add: set_node_def upd_def inb_def)+

lemma set_ninfo_simps [simp]:
  "Array (set_ninfo da i f) = Array da" "Blocks (set_ninfo da i f) = Blocks da"
  "Rejects (set_ninfo da i f) = Rejects da" "BheadF (set_ninfo da i f) = BheadF da"
  "BheadC (set_ninfo da i f) = BheadC da" "BheadO (set_ninfo da i f) = BheadO da"
  "Capacity (set_ninfo da i f) = Capacity da" "Size (set_ninfo da i f) = Size da"
  "Ordered (set_ninfo da i f) = Ordered da" "MaxTrial (set_ninfo da i f) = MaxTrial da"
  "get_head (set_ninfo da i f) h = get_head da h"
  "len (Ninfos (set_ninfo da i f)) = len (Ninfos da)"
  "inb (Ninfos (set_ninfo da i f)) j = inb (Ninfos da) j"
  "at (Ninfos (set_ninfo da i f)) j = (if j = i then f (at (Ninfos da) i) else at (Ninfos da) j)"
  by (cases h; simp add: set_ninfo_def upd_def inb_def)+

lemma set_block_simps [simp]:
  "Array (set_block da i f) = Array da" "Ninfos (set_block da i f) = Ninfos da"
  "Rejects (set_block da i f) = Rejects da" "BheadF (set_block da i f) = BheadF da"
  "BheadC (set_block da i f) = BheadC da" "BheadO (set_block da i f) = BheadO da"
  "Capacity (set_block da i f) = Capacity da" "Size (set_block da i f) = Size da"
  "Ordered (set_block da i f) = Ordered da" "MaxTrial (set_block da i f) = MaxTrial da"
  "get_head (set_block da i f) h = get_head da h"
  "len (Blocks (set_block da i f)) = len (Blocks da)"
  "inb (Blocks (set_block da i f)) j = inb (Blocks da) j"
  "at (Blocks (set_block da i f)) j = (if j = i then f (at (Blocks da) i) else at (Blocks da) j)"
  by (cases h; simp add: set_block_def upd_def inb_def)+

lemma set_head_simps [simp]:
  "Array (set_head da h v) = Array da" "Ninfos (set_head da h v) = Ninfos da"
  "Blocks (set_head da h v) = Blocks da" "Rejects (set_head da h v) = Rejects da"
  "Capacity (set_head da h v) = Capacity da" "Size (set_head da h v) = Size da"
  "Ordered (set_head da h v) = Ordered da" "MaxTrial (set_head da h v) = MaxTrial da"
  "get_head (set_head da h v) h' = (if h' = h then v else get_head da h')"
  by (cases h; cases h'; simp)+

subsection \<open>Frames of the ring operations\<close>

lemma popBlock_frame: "popBlock da bi h l = Some (Inr da') \<Longrightarrow> same_trie da da'"
  by (auto simp: popBlock_def same_trie_def Let_def split: if_splits)

lemma pushBlock_frame: "pushBlock da bi h l = Some (Inr da') \<Longrightarrow> same_trie da da'"
  by (auto simp: pushBlock_def same_trie_def Let_def split: if_splits)

lemma same_trie_trans: "same_trie a b \<Longrightarrow> same_trie b c \<Longrightarrow> same_trie a c"
  by (simp add: same_trie_def)

lemma transferBlock_frame: "transferBlock da bi h h' = Some (Inr da') \<Longrightarrow> same_trie da da'"
  by (auto simp: transferBlock_def rbind_eq_Inr split: if_splits
      dest!: popBlock_frame pushBlock_frame intro: same_trie_trans)

lemma pushBlock_head: "pushBlock da bi h l = Some (Inr da') \<Longrightarrow> get_head da' h = bi"
  by (auto simp: pushBlock_def Let_def split: if_splits)

lemma transferBlock_head: "transferBlock da bi h h' = Some (Inr da') \<Longrightarrow> get_head da' h' = bi"
  by (auto simp: transferBlock_def rbind_eq_Inr split: if_splits dest: pushBlock_head)

lemma ring_walk_cong:
  "(\<And>b. Next (at (Blocks da') b) = Next (at (Blocks da) b)) \<Longrightarrow>
   ring_walk da' n h b = ring_walk da n h b"
  by (induction n arbitrary: b) simp_all

lemma ring_cong:
  "get_head da' h = get_head da h \<Longrightarrow> len (Blocks da') = len (Blocks da) \<Longrightarrow>
   (\<And>b. Next (at (Blocks da') b) = Next (at (Blocks da) b)) \<Longrightarrow> ring da' h = ring da h"
  using ring_walk_cong [of da' da] by (simp add: ring_def)

lemma head_in_ring:
  "get_head da h = bi \<Longrightarrow> bi \<noteq> 0 \<Longrightarrow> inb (Blocks da) bi \<Longrightarrow> bi \<in> set (ring da h)"
  by (cases "nat (len (Blocks da))") (auto simp: ring_def inb_def)

lemma pushEnode_finish_blocks:
  "pushEnode_finish da6 e bi = Some (Inr da') \<Longrightarrow>
   get_head da' h = get_head da6 h \<and> len (Blocks da') = len (Blocks da6) \<and>
   Next (at (Blocks da') b) = Next (at (Blocks da6) b) \<and>
   Trial (at (Blocks da') b) = Trial (at (Blocks da6) b)"
  by (auto simp: pushEnode_finish_def Let_def split: if_splits)

lemma pushEnode_link_trial:
  "pushEnode_link da1 e bi = Some (Inr da6) \<Longrightarrow> Trial (at (Blocks da6) bi) = 0"
  by (auto simp: pushEnode_link_def Let_def rbind_eq_Inr split: if_splits)

lemma pushEnode_link_transfer:
  assumes "pushEnode_link da1 e bi = Some (Inr da6)" "bi \<noteq> 0"
    "Num (at (Blocks da1) bi) = 2 \<or> Trial (at (Blocks da1) bi) = MaxTrial da1"
  shows "BheadO da6 = bi \<and> len (Blocks da6) = len (Blocks da1)"
  using assms
  by (auto simp: pushEnode_link_def Let_def rbind_eq_Inr same_trie_def split: if_splits
      dest: transferBlock_head transferBlock_frame)

lemma pushEnode_link_stay:
  assumes "pushEnode_link da1 e bi = Some (Inr da6)"
    "\<not> (Num (at (Blocks da1) bi) = 2 \<or> Trial (at (Blocks da1) bi) = MaxTrial da1)"
  shows "get_head da6 h = get_head da1 h \<and> len (Blocks da6) = len (Blocks da1) \<and>
     Next (at (Blocks da6) b) = Next (at (Blocks da1) b)"
  using assms
  by (auto simp: pushEnode_link_def Let_def rbind_eq_Inr split: if_splits)


subsection \<open>Evaluation on concrete states\<close>

lemma addBlock_loop_closed:
  "(\<And>j. i \<le> j \<Longrightarrow> j < hi \<Longrightarrow> inb a j) \<Longrightarrow>
   addBlock_loop a i hi =
     Inr (a\<lparr>at := (\<lambda>j. if i \<le> j \<and> j < hi then \<lparr>Value = - (j - 1), Check = - (j + 1)\<rparr>
                      else at a j)\<rparr>)"
proof (induction a i hi rule: addBlock_loop.induct)
  case (1 a i hi)
  show ?case
  proof (cases "i < hi")
    case False
    then have "(\<lambda>j. if i \<le> j \<and> j < hi then \<lparr>Value = - (j - 1), Check = - (j + 1)\<rparr>
                 else at a j) = at a"
      by (auto simp: fun_eq_iff)
    with False show ?thesis by (subst addBlock_loop.simps) simp
  next
    case True
    then have ib: "inb a i" using "1.prems" by simp
    have "addBlock_loop (upd a i \<lparr>Value = - (i - 1), Check = - (i + 1)\<rparr>) (i + 1) hi =
      Inr ((upd a i \<lparr>Value = - (i - 1), Check = - (i + 1)\<rparr>)
             \<lparr>at := (\<lambda>j. if i + 1 \<le> j \<and> j < hi then \<lparr>Value = - (j - 1), Check = - (j + 1)\<rparr>
                      else at (upd a i \<lparr>Value = - (i - 1), Check = - (i + 1)\<rparr>) j)\<rparr>)"
      using "1.prems" True ib by (intro "1.IH") (auto simp: inb_def upd_def)
    moreover have "(upd a i \<lparr>Value = - (i - 1), Check = - (i + 1)\<rparr>)
             \<lparr>at := (\<lambda>j. if i + 1 \<le> j \<and> j < hi then \<lparr>Value = - (j - 1), Check = - (j + 1)\<rparr>
                      else at (upd a i \<lparr>Value = - (i - 1), Check = - (i + 1)\<rparr>) j)\<rparr> =
       a\<lparr>at := (\<lambda>j. if i \<le> j \<and> j < hi then \<lparr>Value = - (j - 1), Check = - (j + 1)\<rparr>
                      else at a j)\<rparr>"
      using True by (auto simp: upd_def fun_eq_iff)
    ultimately show ?thesis using True ib by (subst addBlock_loop.simps) simp
  qed
qed

lemmas cedar_eval = ok_def panic_def inb_def upd_def make_slice_def copy_slice_def ValueLimit_def
  base_def zero_node_def zero_ninfo_def zero_block_def init_def set_node_def set_ninfo_def
  set_block_def New_def popBlock_def pushBlock_def transferBlock_def wrap64_def grow_def addBlock_def
  findPlace_def popEnode_unlink_def popEnode_def pushEnode_single_def pushEnode_link_def
  pushEnode_finish_def pushEnode_def pushSibling_loop.simps pushSibling_def
  consult_loop.simps consult_def setChild_ordered.simps setChild_rest.simps setChild_def
  listEhead_loop.simps listEhead_def listBi_reject_def listBi_loop.simps listBi_def findPlaces_def
  list_rewire.simps list_step_def list_children_def resolve_move_def resolve_def follow_def
  getV_move_def getV.simps Let_def

lemma ring_walk_numeral:
  "ring_walk da (numeral k) h b =
     b # (if Next (at (Blocks da) b) = h then []
          else ring_walk da (pred_numeral k) h (Next (at (Blocks da) b)))"
  by (simp add: numeral_eq_Suc)

lemma ring_walk_1:
  "ring_walk da 1 h b = [b]"
  using ring_walk.simps(2) [of da 0 h b] by simp


subsection \<open>The children collected by setChild are the sibling chain\<close>

lemma setChild_rest_chain:
  "chain_rest da bs c = Some r \<Longrightarrow> setChild_rest da bs c child = Some (Inr (child @ r))"
proof (induction r arbitrary: c child)
  case Nil
  then have "c = 0" by (simp add: chain_rest_Nil)
  then show ?case by (subst setChild_rest.simps) simp
next
  case (Cons x r)
  then have c: "c \<noteq> 0" "x = c" "inb (Ninfos da) (bs XOR uint c)"
    "chain_rest da bs (Sibling (at (Ninfos da) (bs XOR uint c))) = Some r"
    by (simp_all add: chain_rest_Cons)
  from Cons.IH [OF c(4), of "child @ [c]"] c show ?case
    by (subst setChild_rest.simps) simp
qed

lemma setChild_ordered_chain:
  "chain_rest da bs c = Some r \<Longrightarrow>
   \<exists>c'. setChild_ordered da bs label c child =
           Some (Inr (c', child @ takeWhile (\<lambda>x. x \<le> label) r)) \<and>
        chain_rest da bs c' = Some (dropWhile (\<lambda>x. x \<le> label) r)"
proof (induction r arbitrary: c child)
  case Nil
  then have "c = 0" by (simp add: chain_rest_Nil)
  then show ?case by (subst setChild_ordered.simps) (simp add: chain_rest_def)
next
  case (Cons x r)
  then have c: "c \<noteq> 0" "x = c" "inb (Ninfos da) (bs XOR uint c)"
    "chain_rest da bs (Sibling (at (Ninfos da) (bs XOR uint c))) = Some r"
    by (simp_all add: chain_rest_Cons)
  show ?case
  proof (cases "c \<le> label")
    case True
    with Cons.IH [OF c(4), of "child @ [c]"] c show ?thesis
      by (subst setChild_ordered.simps) simp
  next
    case False
    with Cons.prems c show ?thesis
      by (subst setChild_ordered.simps) simp
  qed
qed

lemma setChild_chain:
  assumes "chain_from da bs c0 = Some cs"
  shows "setChild da bs c0 label flag =
    Some (Inr (if flag then with_label (Ordered da) label cs else cs))"
proof -
  from assms obtain cs' where
    c: "inb (Ninfos da) (bs XOR uint c0)" "cs = c0 # cs'"
       "chain_rest da bs (Sibling (at (Ninfos da) (bs XOR uint c0))) = Some cs'"
    using chain_from_Some [of da bs c0 cs] by auto
  define z where "z = (if c0 = 0 then [c0] else [])"
  define c1 where "c1 = (if c0 = 0 then Sibling (at (Ninfos da) (bs XOR uint c0)) else c0)"
  define r where "r = (if c0 = 0 then cs' else cs)"
  have r: "chain_rest da bs c1 = Some r"
  proof (cases "c0 = 0")
    case True
    with c show ?thesis by (simp add: c1_def r_def)
  next
    case False
    with assms show ?thesis by (simp add: c1_def r_def chain_rest_def)
  qed
  have zr: "cs = z @ r" using c by (simp add: z_def r_def)
  have first: "(if c0 = 0 then
             (if inb (Ninfos da) (bs XOR uint c0)
              then ok (Sibling (at (Ninfos da) (bs XOR uint c0)), [c0])
              else panic IndexOutOfRange)
           else ok (c0, [])) = ok (c1, z)"
  proof (cases "c0 = 0")
    case True
    with c show ?thesis by (simp add: c1_def z_def)
  next
    case False
    then show ?thesis by (simp add: c1_def z_def)
  qed
  show ?thesis
  proof (cases "Ordered da")
    case True
    from setChild_ordered_chain [OF r, of label z] obtain c' where
      o: "setChild_ordered da bs label c1 z = Some (Inr (c', z @ takeWhile (\<lambda>x. x \<le> label) r))"
         "chain_rest da bs c' = Some (dropWhile (\<lambda>x. x \<le> label) r)"
      by blast
    have tw: "takeWhile (\<lambda>x. x \<le> label) cs = z @ takeWhile (\<lambda>x. x \<le> label) r"
      "dropWhile (\<lambda>x. x \<le> label) cs = dropWhile (\<lambda>x. x \<le> label) r"
      using zr by (auto simp: z_def)
    show ?thesis
      unfolding setChild_def first
      using True o setChild_rest_chain [OF o(2)] tw
      by (simp add: with_label_def zr [symmetric])
  next
    case False
    have zr': "z = (if c0 = 0 then [0] else [])" "r = (if c0 = 0 then cs' else c0 # cs')"
      using c by (simp_all add: z_def r_def)
    show ?thesis
      unfolding setChild_def first
      using False setChild_rest_chain [OF r]
      by (simp add: with_label_def zr' c(2))
  qed
qed

lemma consult_chain:
  assumes "chain_from da baseN cN = Some ns" and "chain_from da baseP cP = Some ps"
  shows "consult da baseN baseP cN cP = Some (Inr (length ns < length ps))"
proof -
  from assms obtain ns' ps' where
    n: "inb (Ninfos da) (baseN XOR uint cN)" "ns = cN # ns'"
       "chain_rest da baseN (Sibling (at (Ninfos da) (baseN XOR uint cN))) = Some ns'" and
    p: "inb (Ninfos da) (baseP XOR uint cP)" "ps = cP # ps'"
       "chain_rest da baseP (Sibling (at (Ninfos da) (baseP XOR uint cP))) = Some ps'"
    using chain_from_Some [of da baseN cN ns] chain_from_Some [of da baseP cP ps] by auto
  show ?thesis
    using consult_loop_length [OF n(3) p(3)] n p by (simp add: consult_def)
qed

lemma rbind_bind_ok: "rbind (rbind m (\<lambda>x. ok (g x))) h = rbind m (\<lambda>x. h (g x))"
  by (cases m) (auto simp: rbind_def ok_def split: sum.splits)

lemma resolve_move_children:
  assumes "(if flag then setChild da baseN (Child (at (Ninfos da) fromN)) labelN True
            else setChild da baseP (Child (at (Ninfos da) fromP)) 255 False) =
           Some (Inr (c0 # cs))"
  shows "resolve_move da fromN baseN labelN fromP baseP flag =
        (let children = c0 # cs;
              from = (if flag then fromN else fromP);
              nbase = (if flag then baseN else baseP)
          in rbind (if length children = 1 then findPlace da else findPlaces da children)
               (\<lambda>(e, da1).
                  let bs = e XOR uint (hd children) in
                  if flag \<and> hd children = labelN \<and> \<not> inb (Ninfos da1) from
                  then panic IndexOutOfRange
                  else
                    let da2 = (if flag \<and> hd children = labelN
                               then set_ninfo da1 from (\<lambda>n. n\<lparr>Child := labelN\<rparr>)
                               else da1)
                    in if \<not> inb (Array da2) from then panic IndexOutOfRange
                       else
                         rbind (list_loop (set_node da2 from (\<lambda>n. n\<lparr>Value := - bs - 1\<rparr>))
                                  bs from nbase fromN (baseN XOR uint labelN) labelN flag
                                  children)
                           (\<lambda>da3. ok (if flag then bs XOR uint labelN
                                       else baseN XOR uint labelN, da3))))"
  unfolding resolve_move_def assms Let_def list_children_def
  by (simp add: split_def rbind_bind_ok del: list_loop.simps cong: if_cong)

lemma resolve_chain:
  assumes ns: "chain_from da baseN cN = Some ns" and ps: "chain_from da baseP cP = Some ps"
    and h: "inb (Array da) (baseN XOR uint labelN)"
      "Check (at (Array da) (baseN XOR uint labelN)) = fromP" "inb (Array da) fromP"
      "base (at (Array da) fromP) = baseP" "inb (Ninfos da) fromN" "inb (Ninfos da) fromP"
      "Child (at (Ninfos da) fromN) = cN" "Child (at (Ninfos da) fromP) = cP"
  shows "resolve da fromN baseN labelN =
         (let shorter = length ns < length ps;
              children = (if shorter then with_label (Ordered da) labelN ns else ps);
              from = (if shorter then fromN else fromP);
              nbase = (if shorter then baseN else baseP)
          in rbind (if length children = 1 then findPlace da else findPlaces da children)
               (\<lambda>(e, da1).
                  let bs = e XOR uint (hd children) in
                  if shorter \<and> hd children = labelN \<and> \<not> inb (Ninfos da1) from
                  then panic IndexOutOfRange
                  else
                    let da2 = (if shorter \<and> hd children = labelN
                               then set_ninfo da1 from (\<lambda>n. n\<lparr>Child := labelN\<rparr>)
                               else da1)
                    in if \<not> inb (Array da2) from then panic IndexOutOfRange
                       else
                         rbind (list_loop (set_node da2 from (\<lambda>n. n\<lparr>Value := - bs - 1\<rparr>))
                                  bs from nbase fromN (baseN XOR uint labelN) labelN shorter
                                  children)
                           (\<lambda>da3. ok (if shorter then bs XOR uint labelN
                                       else baseN XOR uint labelN, da3))))"
proof -
  have r: "resolve da fromN baseN labelN =
      resolve_move da fromN baseN labelN fromP baseP (length ns < length ps)"
    by (simp add: resolve_def Let_def h consult_chain [OF ns ps])
  show ?thesis
  proof (cases "length ns < length ps")
    case True
    obtain w ws where w: "with_label (Ordered da) labelN ns = w # ws"
      by (cases "with_label (Ordered da) labelN ns") (auto simp: with_label_def split: if_splits)
    have "(if True then setChild da baseN (Child (at (Ninfos da) fromN)) labelN True
            else setChild da baseP (Child (at (Ninfos da) fromP)) 255 False) =
           Some (Inr (w # ws))"
      using setChild_chain [OF ns, of labelN True] h w by simp
    from resolve_move_children [OF this] show ?thesis
      unfolding r using True w by (simp only: Let_def if_True)
  next
    case False
    from ps obtain ps' where p: "ps = cP # ps'"
      using chain_from_Some [of da baseP cP ps] by auto
    have "(if False then setChild da baseN (Child (at (Ninfos da) fromN)) labelN True
            else setChild da baseP (Child (at (Ninfos da) fromP)) 255 False) =
           Some (Inr (cP # ps'))"
      using setChild_chain [OF ps, of 255 False] h p by simp
    from resolve_move_children [OF this] show ?thesis
      unfolding r using False p by (simp only: Let_def if_False)
  qed
qed

text \<open>
  C6. When the sibling chain of the new parent (head \<open>cN\<close>, base \<open>baseN\<close>) is \<open>ns\<close> and the
  one of the incumbent parent (head \<open>cP\<close>, base \<open>baseP\<close>) is \<open>ps\<close>, \<^verbatim>\<open>consult\<close> returns
  true iff \<open>ns\<close> is strictly shorter than \<open>ps\<close>. In \<^verbatim>\<open>resolve\<close> the children that are
  relocated are then the chain \<open>ns\<close> of the new parent \<^verbatim>\<open>fromN\<close> together with the new
  label when \<open>ns\<close> is strictly shorter, and the chain \<open>ps\<close> of the incumbent \<^verbatim>\<open>fromP\<close>
  otherwise: a place is searched for exactly these labels, the base of the parent they
  belong to is pointed at it, and \<^verbatim>\<open>list\<close> moves them under that parent; the slot
  returned is the one of the new label under the new base in the first case and the
  contested slot in the second.
\<close>

theorem consult_iff_new_chain_shorter:
  assumes "chain_from da baseN cN = Some ns" and "chain_from da baseP cP = Some ps"
  shows "consult da baseN baseP cN cP = Some (Inr (length ns < length ps)) \<and>
    (inb (Array da) (baseN XOR uint labelN) \<and>
     fromP = Check (at (Array da) (baseN XOR uint labelN)) \<and> inb (Array da) fromP \<and>
     baseP = base (at (Array da) fromP) \<and> inb (Ninfos da) fromN \<and> inb (Ninfos da) fromP \<and>
     cN = Child (at (Ninfos da) fromN) \<and> cP = Child (at (Ninfos da) fromP)
     \<longrightarrow> resolve da fromN baseN labelN =
         (let shorter = length ns < length ps;
              children = (if shorter then with_label (Ordered da) labelN ns else ps);
              from = (if shorter then fromN else fromP);
              nbase = (if shorter then baseN else baseP)
          in rbind (if length children = 1 then findPlace da else findPlaces da children)
               (\<lambda>(e, da1).
                  let bs = e XOR uint (hd children) in
                  if shorter \<and> hd children = labelN \<and> \<not> inb (Ninfos da1) from
                  then panic IndexOutOfRange
                  else
                    let da2 = (if shorter \<and> hd children = labelN
                               then set_ninfo da1 from (\<lambda>n. n\<lparr>Child := labelN\<rparr>)
                               else da1)
                    in if \<not> inb (Array da2) from then panic IndexOutOfRange
                       else
                         rbind (list_loop (set_node da2 from (\<lambda>n. n\<lparr>Value := - bs - 1\<rparr>))
                                  bs from nbase fromN (baseN XOR uint labelN) labelN shorter
                                  children)
                           (\<lambda>da3. ok (if shorter then bs XOR uint labelN
                                       else baseN XOR uint labelN, da3)))))"
proof (intro conjI impI)
  show "consult da baseN baseP cN cP = Some (Inr (length ns < length ps))"
    by (rule consult_chain [OF assms])
next
  assume "inb (Array da) (baseN XOR uint labelN) \<and>
     fromP = Check (at (Array da) (baseN XOR uint labelN)) \<and> inb (Array da) fromP \<and>
     baseP = base (at (Array da) fromP) \<and> inb (Ninfos da) fromN \<and> inb (Ninfos da) fromP \<and>
     cN = Child (at (Ninfos da) fromN) \<and> cP = Child (at (Ninfos da) fromP)"
  then have h: "inb (Array da) (baseN XOR uint labelN)"
      "Check (at (Array da) (baseN XOR uint labelN)) = fromP" "inb (Array da) fromP"
      "base (at (Array da) fromP) = baseP" "inb (Ninfos da) fromN" "inb (Ninfos da) fromP"
      "Child (at (Ninfos da) fromN) = cN" "Child (at (Ninfos da) fromP) = cP"
    by blast+
  from resolve_chain [OF assms h] show "resolve da fromN baseN labelN =
         (let shorter = length ns < length ps;
              children = (if shorter then with_label (Ordered da) labelN ns else ps);
              from = (if shorter then fromN else fromP);
              nbase = (if shorter then baseN else baseP)
          in rbind (if length children = 1 then findPlace da else findPlaces da children)
               (\<lambda>(e, da1).
                  let bs = e XOR uint (hd children) in
                  if shorter \<and> hd children = labelN \<and> \<not> inb (Ninfos da1) from
                  then panic IndexOutOfRange
                  else
                    let da2 = (if shorter \<and> hd children = labelN
                               then set_ninfo da1 from (\<lambda>n. n\<lparr>Child := labelN\<rparr>)
                               else da1)
                    in if \<not> inb (Array da2) from then panic IndexOutOfRange
                       else
                         rbind (list_loop (set_node da2 from (\<lambda>n. n\<lparr>Value := - bs - 1\<rparr>))
                                  bs from nbase fromN (baseN XOR uint labelN) labelN shorter
                                  children)
                           (\<lambda>da3. ok (if shorter then bs XOR uint labelN
                                       else baseN XOR uint labelN, da3))))" .
qed

theorem consult_iff_new_chain_shorter_witness:
  "(chain_from keys_dee_dc 356 101 = Some [101] \<and>
    chain_from keys_dee_dc 357 99 = Some [99, 101] \<and>
    inb (Array keys_dee_dc) ((356::int) XOR uint (100::8 word)) \<and>
     (101::int) = Check (at (Array keys_dee_dc) ((356::int) XOR uint (100::8 word))) \<and> inb (Array keys_dee_dc) (101::int) \<and>
     (357::int) = base (at (Array keys_dee_dc) (101::int)) \<and> inb (Ninfos keys_dee_dc) (256::int) \<and> inb (Ninfos keys_dee_dc) (101::int) \<and>
     (101::8 word) = Child (at (Ninfos keys_dee_dc) (256::int)) \<and> (99::8 word) = Child (at (Ninfos keys_dee_dc) (101::int)) \<and>
    consult keys_dee_dc 356 357 101 99 = Some (Inr True) \<and>
    resolve keys_dee_dc 256 356 100 =
      (let shorter = length [101::8 word] < length [99::8 word, 101];
              children = (if shorter then with_label (Ordered keys_dee_dc) (100::8 word) [101::8 word] else [99::8 word, 101]);
              from = (if shorter then (256::int) else (101::int));
              nbase = (if shorter then (356::int) else (357::int))
          in rbind (if length children = 1 then findPlace keys_dee_dc else findPlaces keys_dee_dc children)
               (\<lambda>(e, da1).
                  let bs = e XOR uint (hd children) in
                  if shorter \<and> hd children = (100::8 word) \<and> \<not> inb (Ninfos da1) from
                  then panic IndexOutOfRange
                  else
                    let da2 = (if shorter \<and> hd children = (100::8 word)
                               then set_ninfo da1 from (\<lambda>n. n\<lparr>Child := (100::8 word)\<rparr>)
                               else da1)
                    in if \<not> inb (Array da2) from then panic IndexOutOfRange
                       else
                         rbind (list_loop (set_node da2 from (\<lambda>n. n\<lparr>Value := - bs - 1\<rparr>))
                                  bs from nbase (256::int) ((356::int) XOR uint (100::8 word)) (100::8 word) shorter
                                  children)
                           (\<lambda>da3. ok (if shorter then bs XOR uint (100::8 word)
                                       else (356::int) XOR uint (100::8 word), da3)))) \<and>
    (case resolve keys_dee_dc 256 356 100 of
       Some (Inr (to, d)) \<Rightarrow>
         to = 258 \<and> base (at (Array d) 256) = 358 \<and> Check (at (Array d) 258) = 256 \<and>
         Check (at (Array d) 259) = 256 \<and> Check (at (Array d) 257) < 0 \<and>
         base (at (Array d) 101) = 357 \<and> Check (at (Array d) 262) = 101
     | _ \<Rightarrow> False)) \<and>
   (chain_from keys_dac 354 99 = Some [99] \<and>
    chain_from keys_dac 353 97 = Some [97] \<and>
    inb (Array keys_dac) ((354::int) XOR uint (98::8 word)) \<and>
     (101::int) = Check (at (Array keys_dac) ((354::int) XOR uint (98::8 word))) \<and> inb (Array keys_dac) (101::int) \<and>
     (353::int) = base (at (Array keys_dac) (101::int)) \<and> inb (Ninfos keys_dac) (256::int) \<and> inb (Ninfos keys_dac) (101::int) \<and>
     (99::8 word) = Child (at (Ninfos keys_dac) (256::int)) \<and> (97::8 word) = Child (at (Ninfos keys_dac) (101::int)) \<and>
    consult keys_dac 354 353 99 97 = Some (Inr False) \<and>
    resolve keys_dac 256 354 98 =
      (let shorter = length [99::8 word] < length [97::8 word];
              children = (if shorter then with_label (Ordered keys_dac) (98::8 word) [99::8 word] else [97::8 word]);
              from = (if shorter then (256::int) else (101::int));
              nbase = (if shorter then (354::int) else (353::int))
          in rbind (if length children = 1 then findPlace keys_dac else findPlaces keys_dac children)
               (\<lambda>(e, da1).
                  let bs = e XOR uint (hd children) in
                  if shorter \<and> hd children = (98::8 word) \<and> \<not> inb (Ninfos da1) from
                  then panic IndexOutOfRange
                  else
                    let da2 = (if shorter \<and> hd children = (98::8 word)
                               then set_ninfo da1 from (\<lambda>n. n\<lparr>Child := (98::8 word)\<rparr>)
                               else da1)
                    in if \<not> inb (Array da2) from then panic IndexOutOfRange
                       else
                         rbind (list_loop (set_node da2 from (\<lambda>n. n\<lparr>Value := - bs - 1\<rparr>))
                                  bs from nbase (256::int) ((354::int) XOR uint (98::8 word)) (98::8 word) shorter
                                  children)
                           (\<lambda>da3. ok (if shorter then bs XOR uint (98::8 word)
                                       else (354::int) XOR uint (98::8 word), da3)))) \<and>
    (case resolve keys_dac 256 354 98 of
       Some (Inr (to, d)) \<Rightarrow>
         to = 256 \<and> base (at (Array d) 101) = 355 \<and> Check (at (Array d) 258) = 101 \<and>
         base (at (Array d) 258) = 354 \<and> Check (at (Array d) 257) = 258 \<and>
         Check (at (Array d) 256) = 258
     | _ \<Rightarrow> False))"
proof -
  have t1: "chain_from keys_dee_dc 356 101 = Some [101]"
    by (simp add: keys_dee_dc_def keys_dac_def state_of_def cedar_eval chain_from.simps addBlock_loop_closed
      del: set_node_simps set_ninfo_simps set_block_simps cong: rbind_weak_cong)
  have t2: "chain_from keys_dee_dc 357 99 = Some [99, 101]"
    by (simp add: keys_dee_dc_def keys_dac_def state_of_def cedar_eval chain_from.simps addBlock_loop_closed
      del: set_node_simps set_ninfo_simps set_block_simps cong: rbind_weak_cong)
  have t3: "inb (Array keys_dee_dc) ((356::int) XOR uint (100::8 word)) \<and>
     (101::int) = Check (at (Array keys_dee_dc) ((356::int) XOR uint (100::8 word))) \<and> inb (Array keys_dee_dc) (101::int) \<and>
     (357::int) = base (at (Array keys_dee_dc) (101::int)) \<and> inb (Ninfos keys_dee_dc) (256::int) \<and> inb (Ninfos keys_dee_dc) (101::int) \<and>
     (101::8 word) = Child (at (Ninfos keys_dee_dc) (256::int)) \<and> (99::8 word) = Child (at (Ninfos keys_dee_dc) (101::int))"
    by (simp add: keys_dee_dc_def keys_dac_def state_of_def cedar_eval chain_from.simps addBlock_loop_closed
      del: set_node_simps set_ninfo_simps set_block_simps cong: rbind_weak_cong)
  have t4: "(case resolve keys_dee_dc 256 356 100 of
       Some (Inr (to, d)) \<Rightarrow>
         to = 258 \<and> base (at (Array d) 256) = 358 \<and> Check (at (Array d) 258) = 256 \<and>
         Check (at (Array d) 259) = 256 \<and> Check (at (Array d) 257) < 0 \<and>
         base (at (Array d) 101) = 357 \<and> Check (at (Array d) 262) = 101
     | _ \<Rightarrow> False)"
    by (simp add: keys_dee_dc_def keys_dac_def state_of_def cedar_eval chain_from.simps addBlock_loop_closed
      del: set_node_simps set_ninfo_simps set_block_simps cong: rbind_weak_cong)
  have f1: "chain_from keys_dac 354 99 = Some [99]"
    by (simp add: keys_dee_dc_def keys_dac_def state_of_def cedar_eval chain_from.simps addBlock_loop_closed
      del: set_node_simps set_ninfo_simps set_block_simps cong: rbind_weak_cong)
  have f2: "chain_from keys_dac 353 97 = Some [97]"
    by (simp add: keys_dee_dc_def keys_dac_def state_of_def cedar_eval chain_from.simps addBlock_loop_closed
      del: set_node_simps set_ninfo_simps set_block_simps cong: rbind_weak_cong)
  have f3: "inb (Array keys_dac) ((354::int) XOR uint (98::8 word)) \<and>
     (101::int) = Check (at (Array keys_dac) ((354::int) XOR uint (98::8 word))) \<and> inb (Array keys_dac) (101::int) \<and>
     (353::int) = base (at (Array keys_dac) (101::int)) \<and> inb (Ninfos keys_dac) (256::int) \<and> inb (Ninfos keys_dac) (101::int) \<and>
     (99::8 word) = Child (at (Ninfos keys_dac) (256::int)) \<and> (97::8 word) = Child (at (Ninfos keys_dac) (101::int))"
    by (simp add: keys_dee_dc_def keys_dac_def state_of_def cedar_eval chain_from.simps addBlock_loop_closed
      del: set_node_simps set_ninfo_simps set_block_simps cong: rbind_weak_cong)
  have f4: "(case resolve keys_dac 256 354 98 of
       Some (Inr (to, d)) \<Rightarrow>
         to = 256 \<and> base (at (Array d) 101) = 355 \<and> Check (at (Array d) 258) = 101 \<and>
         base (at (Array d) 258) = 354 \<and> Check (at (Array d) 257) = 258 \<and>
         Check (at (Array d) 256) = 258
     | _ \<Rightarrow> False)"
    by (simp add: keys_dee_dc_def keys_dac_def state_of_def cedar_eval chain_from.simps addBlock_loop_closed
      del: set_node_simps set_ninfo_simps set_block_simps cong: rbind_weak_cong)
  note t = consult_iff_new_chain_shorter [OF t1 t2, of 100 101 256]
  note f = consult_iff_new_chain_shorter [OF f1 f2, of 98 101 256]
  have t5: "consult keys_dee_dc 356 357 101 99 = Some (Inr True)"
    using t by simp
  have f5: "consult keys_dac 354 353 99 97 = Some (Inr False)"
    using f by simp
  have t6: "resolve keys_dee_dc 256 356 100 =
      (let shorter = length [101::8 word] < length [99::8 word, 101];
              children = (if shorter then with_label (Ordered keys_dee_dc) (100::8 word) [101::8 word] else [99::8 word, 101]);
              from = (if shorter then (256::int) else (101::int));
              nbase = (if shorter then (356::int) else (357::int))
          in rbind (if length children = 1 then findPlace keys_dee_dc else findPlaces keys_dee_dc children)
               (\<lambda>(e, da1).
                  let bs = e XOR uint (hd children) in
                  if shorter \<and> hd children = (100::8 word) \<and> \<not> inb (Ninfos da1) from
                  then panic IndexOutOfRange
                  else
                    let da2 = (if shorter \<and> hd children = (100::8 word)
                               then set_ninfo da1 from (\<lambda>n. n\<lparr>Child := (100::8 word)\<rparr>)
                               else da1)
                    in if \<not> inb (Array da2) from then panic IndexOutOfRange
                       else
                         rbind (list_loop (set_node da2 from (\<lambda>n. n\<lparr>Value := - bs - 1\<rparr>))
                                  bs from nbase (256::int) ((356::int) XOR uint (100::8 word)) (100::8 word) shorter
                                  children)
                           (\<lambda>da3. ok (if shorter then bs XOR uint (100::8 word)
                                       else (356::int) XOR uint (100::8 word), da3))))"
    using t t3 by blast
  have f6: "resolve keys_dac 256 354 98 =
      (let shorter = length [99::8 word] < length [97::8 word];
              children = (if shorter then with_label (Ordered keys_dac) (98::8 word) [99::8 word] else [97::8 word]);
              from = (if shorter then (256::int) else (101::int));
              nbase = (if shorter then (354::int) else (353::int))
          in rbind (if length children = 1 then findPlace keys_dac else findPlaces keys_dac children)
               (\<lambda>(e, da1).
                  let bs = e XOR uint (hd children) in
                  if shorter \<and> hd children = (98::8 word) \<and> \<not> inb (Ninfos da1) from
                  then panic IndexOutOfRange
                  else
                    let da2 = (if shorter \<and> hd children = (98::8 word)
                               then set_ninfo da1 from (\<lambda>n. n\<lparr>Child := (98::8 word)\<rparr>)
                               else da1)
                    in if \<not> inb (Array da2) from then panic IndexOutOfRange
                       else
                         rbind (list_loop (set_node da2 from (\<lambda>n. n\<lparr>Value := - bs - 1\<rparr>))
                                  bs from nbase (256::int) ((354::int) XOR uint (98::8 word)) (98::8 word) shorter
                                  children)
                           (\<lambda>da3. ok (if shorter then bs XOR uint (98::8 word)
                                       else (354::int) XOR uint (98::8 word), da3))))"
    using f f3 by blast
  show ?thesis
    using t1 t2 t3 t4 t5 t6 f1 f2 f3 f4 f5 f6 by blast
qed

(*LEMMAS-END*)

end
